theory Spec2Isabelle
  imports Main
begin

section \<open>Data model\<close>

text \<open>
  The two record shapes kept in localStorage by \<^verbatim>\<open>script.js\<close>. A completed entry is
  the object literal \<^verbatim>\<open>{ id: now.getTime(), content: content }\<close>, a given entry is
  \<^verbatim>\<open>{ completedOn: entryObject.content, givenOn: ... }\<close>. The field \<^verbatim>\<open>id\<close> is
  called \<open>id_entry\<close> here, since \<open>id\<close> is the identity function of HOL.
\<close>

record completed_entry =
  id_entry :: int
  content :: string

record given_entry =
  completedOn :: string
  givenOn :: string

text \<open>
  The object returned by \<^verbatim>\<open>new Date()\<close>, by the two observations the script makes of
  it: \<^verbatim>\<open>now.getTime()\<close> (milliseconds since the epoch, an integer) and
  \<^verbatim>\<open>now.toLocaleDateString(undefined, dateOptions)\<close> (a text that depends on the
  viewer's locale). The handlers that call \<^verbatim>\<open>new Date()\<close> take it as an argument.
\<close>

record date =
  getTime :: int
  toLocaleDateString :: string

text \<open>
  The text held by a storage slot, by what \<^verbatim>\<open>JSON.parse\<close> makes of it: the empty
  text, a non-empty text that is not JSON, or the text that \<^verbatim>\<open>JSON.stringify\<close>
  produced for an array of entries. (Texts that are JSON but not an array of entry records
  are outside this model.)
\<close>

datatype 'a slot_text = Blank | Malformed | Encoded "'a list"

datatype error = SyntaxError

datatype 'a outcome = Returned 'a | Threw error 'a

text \<open>
  A row of the Completed list: the \<^verbatim>\<open>li\<close> element made by
  \<^verbatim>\<open>createCompletedListItem\<close>. \<open>li_id\<close> is the identity of the element (what
  \<^verbatim>\<open>listItem\<close> refers to inside the \<^verbatim>\<open>onclick\<close> closure), \<open>textSpan\<close> and
  \<open>removeBtn\<close> are the \<^verbatim>\<open>textContent\<close> of its two children and \<open>onclick_entry\<close> is
  the \<^verbatim>\<open>entryObject\<close> captured by the closure.
\<close>

record completed_li =
  li_id :: nat
  textSpan :: string
  removeBtn :: string
  onclick_entry :: completed_entry

record given_li =
  completedText :: string
  givenText :: string

text \<open>
  The whole state the script reads and writes: the two slots of localStorage, the DOM
  elements it holds references to, its two module variables and the pending timeouts of
  the event loop (handle and due time; the only callback ever scheduled is
  \<^verbatim>\<open>enterResetMode\<close>).
\<close>

record app =
  completionEntries_slot :: "completed_entry slot_text option"
  givenEntries_slot :: "given_entry slot_text option"
  completionList :: "completed_li list"
  givenList :: "given_li list"
  tabCompleted :: string
  tabGiven :: string
  completeButton :: string
  completeButton_reset_mode :: bool
  next_li :: nat
  pressTimer :: "nat option"
  isResetMode :: bool
  timers :: "(nat \<times> int) list"
  next_timer :: nat

section \<open>Built-ins of the platform\<close>

definition JSON_stringify :: "'a list \<Rightarrow> 'a slot_text" where
  "JSON_stringify entries = Encoded entries"

fun JSON_parse :: "'a slot_text \<Rightarrow> error + 'a list" where
  "JSON_parse Blank = Inl SyntaxError"
| "JSON_parse Malformed = Inl SyntaxError"
| "JSON_parse (Encoded entries) = Inr entries"

text \<open>A text is truthy in JavaScript unless it is empty.\<close>

fun truthy :: "'a slot_text \<Rightarrow> bool" where
  "truthy Blank = False"
| "truthy Malformed = True"
| "truthy (Encoded entries) = True"

text \<open>The decimal numeral a template literal produces for an array length.\<close>

function show_nat :: "nat \<Rightarrow> string" where
  "show_nat n =
     (if n < 10 then [char_of (48 + n)]
      else show_nat (n div 10) @ [char_of (48 + n mod 10)])"
  by pat_completeness auto
termination
  by (relation "measure (\<lambda>n. n)") auto

declare show_nat.simps [simp del]

text \<open>The two glyphs of the script, as their UTF-8 bytes.\<close>

definition TRANSFER_ARROW :: string where
  "TRANSFER_ARROW = [char_of (0xE2 :: nat), char_of (0x87 :: nat), char_of (0x84 :: nat)]"

definition RESET_ICON :: string where
  "RESET_ICON = [char_of (0xE2 :: nat), char_of (0x9F :: nat), char_of (0xB3 :: nat)]"

definition and_then :: "'a outcome \<Rightarrow> ('a \<Rightarrow> 'a outcome) \<Rightarrow> 'a outcome" where
  "and_then r f = (case r of Returned st \<Rightarrow> f st | Threw e st \<Rightarrow> Threw e st)"

definition state_of :: "'a outcome \<Rightarrow> 'a" where
  "state_of r = (case r of Returned st \<Rightarrow> st | Threw e st \<Rightarrow> st)"

text \<open>A handler that stopped with an exception.\<close>

definition aborted :: "'a outcome \<Rightarrow> bool" where
  "aborted r = (case r of Returned st \<Rightarrow> False | Threw e st \<Rightarrow> True)"

section \<open>Data functions\<close>

definition loadCompletedEntries :: "app \<Rightarrow> error + completed_entry list" where
  "loadCompletedEntries st =
     (case completionEntries_slot st of
        None \<Rightarrow> Inr []
      | Some entriesJSON \<Rightarrow> if truthy entriesJSON then JSON_parse entriesJSON else Inr [])"

definition saveCompletedEntries :: "completed_entry list \<Rightarrow> app \<Rightarrow> app" where
  "saveCompletedEntries entries st = st\<lparr>completionEntries_slot := Some (JSON_stringify entries)\<rparr>"

definition loadGivenEntries :: "app \<Rightarrow> error + given_entry list" where
  "loadGivenEntries st =
     (case givenEntries_slot st of
        None \<Rightarrow> Inr []
      | Some entriesJSON \<Rightarrow> if truthy entriesJSON then JSON_parse entriesJSON else Inr [])"

definition saveGivenEntries :: "given_entry list \<Rightarrow> app \<Rightarrow> app" where
  "saveGivenEntries entries st = st\<lparr>givenEntries_slot := Some (JSON_stringify entries)\<rparr>"

section \<open>UI functions\<close>

definition createCompletedListItem :: "completed_entry \<Rightarrow> app \<Rightarrow> completed_li \<times> app" where
  "createCompletedListItem entryObject st =
     (\<lparr>li_id = next_li st, textSpan = content entryObject, removeBtn = TRANSFER_ARROW,
       onclick_entry = entryObject\<rparr>,
      st\<lparr>next_li := Suc (next_li st)\<rparr>)"

definition createGivenListItem :: "given_entry \<Rightarrow> given_li" where
  "createGivenListItem entryObject =
     \<lparr>completedText = completedOn entryObject, givenText = givenOn entryObject\<rparr>"

definition updateTabCounts :: "app \<Rightarrow> app outcome" where
  "updateTabCounts st =
     (case loadCompletedEntries st of
        Inl e \<Rightarrow> Threw e st
      | Inr completed \<Rightarrow>
          (case loadGivenEntries st of
             Inl e \<Rightarrow> Threw e st
           | Inr given \<Rightarrow>
               Returned (st\<lparr>tabCompleted := ''Completed ('' @ show_nat (length completed) @ '')'',
                            tabGiven := ''Given ('' @ show_nat (length given) @ '')''\<rparr>)))"

definition appendCompleted :: "completed_entry \<Rightarrow> app \<Rightarrow> app" where
  "appendCompleted entryObject st =
     (let (listItem, st1) = createCompletedListItem entryObject st
      in st1\<lparr>completionList := completionList st1 @ [listItem]\<rparr>)"

definition appendGiven :: "given_entry \<Rightarrow> app \<Rightarrow> app" where
  "appendGiven entryObject st =
     st\<lparr>givenList := givenList st @ [createGivenListItem entryObject]\<rparr>"

definition renderList :: "app \<Rightarrow> app outcome" where
  "renderList st =
     (let st1 = st\<lparr>completionList := [], givenList := []\<rparr>
      in case loadCompletedEntries st1 of
           Inl e \<Rightarrow> Threw e st1
         | Inr completedEntries \<Rightarrow>
             (let st2 = fold appendCompleted completedEntries st1
              in case loadGivenEntries st2 of
                   Inl e \<Rightarrow> Threw e st2
                 | Inr givenEntries \<Rightarrow> Returned (fold appendGiven givenEntries st2)))"

section \<open>Event handlers\<close>

definition handleAddEntry :: "date \<Rightarrow> app \<Rightarrow> app outcome" where
  "handleAddEntry now st =
     (let date = toLocaleDateString now;
          content = ''Completed on '' @ date;
          newEntry = \<lparr>id_entry = getTime now, content = content\<rparr>;
          (listItem, st1) = createCompletedListItem newEntry st;
          st2 = st1\<lparr>completionList := listItem # completionList st1\<rparr>
      in case loadCompletedEntries st2 of
           Inl e \<Rightarrow> Threw e st2
         | Inr currentEntries \<Rightarrow>
             updateTabCounts (saveCompletedEntries (newEntry # currentEntries) st2))"

text \<open>
  \<open>listItemElement\<close> is the identity of the row that was clicked;
  \<^verbatim>\<open>listItemElement.remove()\<close> detaches that element from the list it is in.
\<close>

definition handleTransfer :: "completed_entry \<Rightarrow> nat \<Rightarrow> date \<Rightarrow> app \<Rightarrow> app outcome" where
  "handleTransfer entryObject listItemElement now st =
     (let st1 = st\<lparr>completionList := filter (\<lambda>li. li_id li \<noteq> listItemElement) (completionList st)\<rparr>
      in case loadCompletedEntries st1 of
           Inl e \<Rightarrow> Threw e st1
         | Inr completedEntries \<Rightarrow>
             (let st2 = saveCompletedEntries
                          (filter (\<lambda>entry. id_entry entry \<noteq> id_entry entryObject) completedEntries) st1;
                  givenDate = toLocaleDateString now;
                  newGivenEntry = \<lparr>completedOn = content entryObject,
                                   givenOn = ''Given on: '' @ givenDate\<rparr>;
                  st3 = st2\<lparr>givenList := createGivenListItem newGivenEntry # givenList st2\<rparr>
              in case loadGivenEntries st3 of
                   Inl e \<Rightarrow> Threw e st3
                 | Inr givenEntries \<Rightarrow>
                     updateTabCounts (saveGivenEntries (newGivenEntry # givenEntries) st3)))"

section \<open>Reset feature\<close>

definition enterResetMode :: "app \<Rightarrow> app" where
  "enterResetMode st =
     st\<lparr>isResetMode := True, completeButton_reset_mode := True, completeButton := RESET_ICON\<rparr>"

definition exitResetMode :: "app \<Rightarrow> app" where
  "exitResetMode st =
     st\<lparr>isResetMode := False, completeButton_reset_mode := False, completeButton := ''+''\<rparr>"

text \<open>\<open>confirmed\<close> is the answer the user gives to \<^verbatim>\<open>window.confirm\<close>.\<close>

definition handleReset :: "bool \<Rightarrow> app \<Rightarrow> app outcome" where
  "handleReset confirmed st =
     (if confirmed then
        and_then (renderList (saveGivenEntries [] (saveCompletedEntries [] st)))
          (\<lambda>st1. and_then (updateTabCounts st1) (\<lambda>st2. Returned (exitResetMode st2)))
      else Returned (exitResetMode st))"

text \<open>
  \<^verbatim>\<open>window.setTimeout(enterResetMode, 3000)\<close> at time \<open>t\<close> of the event loop's clock
  (in milliseconds) schedules the callback for \<open>t + 3000\<close> under a fresh handle;
  \<^verbatim>\<open>clearTimeout\<close> drops the timeout with the given handle, if it is still pending.
\<close>

definition handleButtonPress :: "int \<Rightarrow> app \<Rightarrow> app" where
  "handleButtonPress t st =
     st\<lparr>timers := timers st @ [(next_timer st, t + 3000)],
        next_timer := Suc (next_timer st),
        pressTimer := Some (next_timer st)\<rparr>"

definition clearTimeout :: "nat option \<Rightarrow> app \<Rightarrow> app" where
  "clearTimeout handle st =
     (case handle of
        None \<Rightarrow> st
      | Some h \<Rightarrow> st\<lparr>timers := filter (\<lambda>(h', due). h' \<noteq> h) (timers st)\<rparr>)"

definition handleButtonRelease :: "app \<Rightarrow> app" where
  "handleButtonRelease st = clearTimeout (pressTimer st) st"

definition handleButtonClick :: "date \<Rightarrow> bool \<Rightarrow> app \<Rightarrow> app outcome" where
  "handleButtonClick now confirmed st =
     (if isResetMode st then handleReset confirmed st else handleAddEntry now st)"

text \<open>The event loop reaching time \<open>t\<close>: every timeout due by then runs its callback.\<close>

definition elapse :: "int \<Rightarrow> app \<Rightarrow> app" where
  "elapse t st =
     fold (\<lambda>timer. enterResetMode) (filter (\<lambda>(h, due). due \<le> t) (timers st))
       (st\<lparr>timers := filter (\<lambda>(h, due). \<not> due \<le> t) (timers st)\<rparr>)"

section \<open>Initial load and gestures\<close>

text \<open>The body of the \<^verbatim>\<open>DOMContentLoaded\<close> listener, up to the registration of the
  listeners, which an exception thrown before it skips.\<close>

definition DOMContentLoaded :: "app \<Rightarrow> app outcome" where
  "DOMContentLoaded st = and_then (renderList st) updateTabCounts"

text \<open>A freshly loaded page over a storage with the given two slots.\<close>

definition page :: "completed_entry slot_text option \<Rightarrow> given_entry slot_text option \<Rightarrow> app" where
  "page c g =
     \<lparr>completionEntries_slot = c, givenEntries_slot = g, completionList = [], givenList = [],
      tabCompleted = ''Completed'', tabGiven = ''Given'', completeButton = ''+'',
      completeButton_reset_mode = False, next_li = 0, pressTimer = None,
      isResetMode = False, timers = [], next_timer = 0\<rparr>"

text \<open>
  The gestures: a click on the button (with the date of the click and the answer the user
  would give to the prompt), a click on the transfer arrow of the row at a position of the
  Completed list, a press on the button at a time of the clock, a release (or the pointer
  leaving the button), and the passing of time.
\<close>

datatype gesture =
    Click date bool
  | Transfer nat date
  | Press int
  | Release
  | Wait int

fun dispatch :: "gesture \<Rightarrow> app \<Rightarrow> app outcome" where
  "dispatch (Click now confirmed) st = handleButtonClick now confirmed st"
| "dispatch (Transfer i now) st =
     (if i < length (completionList st)
      then handleTransfer (onclick_entry (completionList st ! i)) (li_id (completionList st ! i)) now st
      else Returned st)"
| "dispatch (Press t) st = Returned (handleButtonPress t st)"
| "dispatch Release st = Returned (handleButtonRelease st)"
| "dispatch (Wait t) st = Returned (elapse t st)"

text \<open>An exception ends the handler that threw it, not the page: the next gesture runs
  on the state the handler left behind.\<close>

fun run :: "gesture list \<Rightarrow> app \<Rightarrow> app" where
  "run [] st = st"
| "run (g # gs) st = run gs (state_of (dispatch g st))"

text \<open>The three states of the add button, read off the script's variables.\<close>

datatype controller = Normal | ArmPending | Armed

definition controller_state :: "app \<Rightarrow> controller" where
  "controller_state st =
     (if isResetMode st then Armed else if timers st = [] then Normal else ArmPending)"

text \<open>What the user sees of the two lists: the texts of the rows, in order.\<close>

definition visible_rows :: "app \<Rightarrow> (string \<times> string) list \<times> (string \<times> string) list" where
  "visible_rows st =
     (map (\<lambda>li. (textSpan li, removeBtn li)) (completionList st),
      map (\<lambda>li. (completedText li, givenText li)) (givenList st))"

section \<open>Concrete inputs\<close>

text \<open>The dates and the entry of the spec's scenario: an entry added on 2024-01-10 and
  transferred on 2024-01-15 (midnight UTC, in milliseconds).\<close>

definition jan10 :: date where
  "jan10 = \<lparr>getTime = 1704844800000, toLocaleDateString = ''January 10, 2024''\<rparr>"

definition jan15 :: date where
  "jan15 = \<lparr>getTime = 1705276800000, toLocaleDateString = ''January 15, 2024''\<rparr>"

definition entry_jan10 :: completed_entry where
  "entry_jan10 = \<lparr>id_entry = 1704844800000, content = ''Completed on January 10, 2024''\<rparr>"

section \<open>Loading after saving\<close>

lemma load_after_saveCompleted:
  "loadCompletedEntries (saveCompletedEntries entries st) = Inr entries"
  "loadGivenEntries (saveCompletedEntries entries st) = loadGivenEntries st"
  by (simp_all add: loadCompletedEntries_def loadGivenEntries_def saveCompletedEntries_def
      JSON_stringify_def)

lemma load_after_saveGiven:
  "loadGivenEntries (saveGivenEntries entries st) = Inr entries"
  "loadCompletedEntries (saveGivenEntries entries st) = loadCompletedEntries st"
  by (simp_all add: loadCompletedEntries_def loadGivenEntries_def saveGivenEntries_def
      JSON_stringify_def)

lemma load_frame:
  "loadCompletedEntries (st\<lparr>completionList := cl\<rparr>) = loadCompletedEntries st"
  "loadCompletedEntries (st\<lparr>givenList := gl\<rparr>) = loadCompletedEntries st"
  "loadCompletedEntries (st\<lparr>next_li := n\<rparr>) = loadCompletedEntries st"
  "loadCompletedEntries (st\<lparr>tabCompleted := tc\<rparr>) = loadCompletedEntries st"
  "loadCompletedEntries (st\<lparr>tabGiven := tg\<rparr>) = loadCompletedEntries st"
  "loadGivenEntries (st\<lparr>completionList := cl\<rparr>) = loadGivenEntries st"
  "loadGivenEntries (st\<lparr>givenList := gl\<rparr>) = loadGivenEntries st"
  "loadGivenEntries (st\<lparr>next_li := n\<rparr>) = loadGivenEntries st"
  "loadGivenEntries (st\<lparr>tabCompleted := tc\<rparr>) = loadGivenEntries st"
  "loadGivenEntries (st\<lparr>tabGiven := tg\<rparr>) = loadGivenEntries st"
  by (simp_all add: loadCompletedEntries_def loadGivenEntries_def)

lemma updateTabCounts_loaded:
  assumes "loadCompletedEntries st = Inr completed" and "loadGivenEntries st = Inr given"
  shows "updateTabCounts st =
           Returned (st\<lparr>tabCompleted := ''Completed ('' @ show_nat (length completed) @ '')'',
                        tabGiven := ''Given ('' @ show_nat (length given) @ '')''\<rparr>)"
  using assms by (simp add: updateTabCounts_def)

lemma handleTransfer_loaded:
  assumes "loadCompletedEntries st = Inr completed" and "loadGivenEntries st = Inr given"
  shows "\<exists>st'. handleTransfer e li now st = Returned st'
           \<and> loadCompletedEntries st' = Inr (filter (\<lambda>entry. id_entry entry \<noteq> id_entry e) completed)
           \<and> loadGivenEntries st' =
               Inr (\<lparr>completedOn = content e, givenOn = ''Given on: '' @ toLocaleDateString now\<rparr> # given)"
  using assms
  by (simp add: handleTransfer_def Let_def load_frame load_after_saveCompleted
      load_after_saveGiven updateTabCounts_loaded)

lemma handleAddEntry_loaded:
  assumes "loadCompletedEntries st = Inr completed" and "loadGivenEntries st = Inr given"
  shows "\<exists>st'. handleAddEntry now st = Returned st'
           \<and> loadCompletedEntries st' =
               Inr (\<lparr>id_entry = getTime now, content = ''Completed on '' @ toLocaleDateString now\<rparr> # completed)
           \<and> loadGivenEntries st' = Inr given"
  using assms
  by (simp add: handleAddEntry_def Let_def createCompletedListItem_def load_frame
      load_after_saveCompleted updateTabCounts_loaded)

lemma load_page:
  "loadCompletedEntries (page (Some (Encoded cs)) g) = Inr cs"
  "loadGivenEntries (page c (Some (Encoded gs))) = Inr gs"
  "loadCompletedEntries (page None g) = Inr []"
  "loadGivenEntries (page c None) = Inr []"
  by (simp_all add: loadCompletedEntries_def loadGivenEntries_def page_def)

section \<open>Transfer\<close>

text \<open>
  Claim C1. In every state whose two slots load, and for every entry \<open>e\<close> of the
  persisted Completed sequence, \<open>handleTransfer\<close> returns, and afterwards no entry of the
  persisted Completed sequence has the id of \<open>e\<close>, the persisted Given sequence is one
  element longer, and its element at index 0 has \<open>completedOn\<close> equal to the content of
  \<open>e\<close> and \<open>givenOn\<close> equal to \<open>''Given on: ''\<close> followed by the formatted current date.
\<close>

theorem transfer_postcondition:
  assumes "loadCompletedEntries st = Inr completed"
    and "loadGivenEntries st = Inr given"
    and "e \<in> set completed"
  shows "\<exists>st' completed' given'.
           handleTransfer e li now st = Returned st'
         \<and> loadCompletedEntries st' = Inr completed'
         \<and> loadGivenEntries st' = Inr given'
         \<and> id_entry e \<notin> id_entry ` set completed'
         \<and> length given' = length given + 1
         \<and> completedOn (given' ! 0) = content e
         \<and> givenOn (given' ! 0) = ''Given on: '' @ toLocaleDateString now"
proof -
  from handleTransfer_loaded [OF assms(1) assms(2), of e li now]
  obtain st' where r: "handleTransfer e li now st = Returned st'"
    and c: "loadCompletedEntries st' = Inr (filter (\<lambda>entry. id_entry entry \<noteq> id_entry e) completed)"
    and g: "loadGivenEntries st' =
              Inr (\<lparr>completedOn = content e, givenOn = ''Given on: '' @ toLocaleDateString now\<rparr> # given)"
    by blast
  have "id_entry e \<notin> id_entry ` set (filter (\<lambda>entry. id_entry entry \<noteq> id_entry e) completed)"
    by auto
  with r c g show ?thesis by simp
qed

theorem transfer_postcondition_witness:
  "loadCompletedEntries (page (Some (Encoded [entry_jan10])) None) = Inr [entry_jan10]
   \<and> loadGivenEntries (page (Some (Encoded [entry_jan10])) None) = Inr []
   \<and> entry_jan10 \<in> set [entry_jan10]
   \<and> (\<exists>st' completed' given'.
           handleTransfer entry_jan10 0 jan15 (page (Some (Encoded [entry_jan10])) None) = Returned st'
         \<and> loadCompletedEntries st' = Inr completed'
         \<and> loadGivenEntries st' = Inr given'
         \<and> id_entry entry_jan10 \<notin> id_entry ` set completed'
         \<and> length given' = length ([] :: given_entry list) + 1
         \<and> completedOn (given' ! 0) = content entry_jan10
         \<and> givenOn (given' ! 0) = ''Given on: '' @ toLocaleDateString jan15)"
proof -
  have 1: "loadCompletedEntries (page (Some (Encoded [entry_jan10])) None) = Inr [entry_jan10]"
    by (simp add: load_page)
  have 2: "loadGivenEntries (page (Some (Encoded [entry_jan10])) None) = Inr []"
    by (simp add: load_page)
  have 3: "entry_jan10 \<in> set [entry_jan10]" by simp
  from transfer_postcondition [OF 1 2 3, of 0 jan15] 1 2 3 show ?thesis by blast
qed

text \<open>
  Claim C2. In every state whose two slots load, and for every entry \<open>e\<close> whose id does not
  occur in the persisted Completed sequence, \<open>handleTransfer\<close> returns, leaves the
  persisted Completed sequence as it was, and still adds the given entry derived from \<open>e\<close>
  to the persisted Given sequence (at index 0, before the entries that were there).
\<close>

theorem transfer_absent_id:
  assumes "loadCompletedEntries st = Inr completed"
    and "loadGivenEntries st = Inr given"
    and "id_entry e \<notin> id_entry ` set completed"
  shows "\<exists>st'. handleTransfer e li now st = Returned st'
           \<and> loadCompletedEntries st' = Inr completed
           \<and> loadGivenEntries st' =
               Inr (\<lparr>completedOn = content e, givenOn = ''Given on: '' @ toLocaleDateString now\<rparr> # given)"
proof -
  have "filter (\<lambda>entry. id_entry entry \<noteq> id_entry e) completed = completed"
    using assms(3) by (induction completed) auto
  with handleTransfer_loaded [OF assms(1) assms(2), of e li now] show ?thesis
    by simp
qed

theorem transfer_absent_id_witness:
  "loadCompletedEntries (page (Some (Encoded [entry_jan10])) None) = Inr [entry_jan10]
   \<and> loadGivenEntries (page (Some (Encoded [entry_jan10])) None) = Inr []
   \<and> id_entry \<lparr>id_entry = 7, content = ''Completed on January 1, 1970''\<rparr> \<notin> id_entry ` set [entry_jan10]
   \<and> (\<exists>st'. handleTransfer \<lparr>id_entry = 7, content = ''Completed on January 1, 1970''\<rparr> 0 jan15
              (page (Some (Encoded [entry_jan10])) None) = Returned st'
           \<and> loadCompletedEntries st' = Inr [entry_jan10]
           \<and> loadGivenEntries st' =
               Inr [\<lparr>completedOn = ''Completed on January 1, 1970'',
                     givenOn = ''Given on: January 15, 2024''\<rparr>])"
proof -
  have 1: "loadCompletedEntries (page (Some (Encoded [entry_jan10])) None) = Inr [entry_jan10]"
    by (simp add: load_page)
  have 2: "loadGivenEntries (page (Some (Encoded [entry_jan10])) None) = Inr []"
    by (simp add: load_page)
  have 3: "id_entry \<lparr>id_entry = 7, content = ''Completed on January 1, 1970''\<rparr>
             \<notin> id_entry ` set [entry_jan10]"
    by (simp add: entry_jan10_def)
  from transfer_absent_id [OF 1 2 3, of 0 jan15] 1 2 3 show ?thesis
    by (simp add: jan15_def)
qed

text \<open>
  Claim C10. In every state whose two slots load, \<open>handleTransfer\<close> keeps the persisted
  completed entries whose id differs from the id of \<open>e\<close>, all of them and in their order
  (and keeps nothing else), and the persisted Given sequence after it is one new entry
  followed by the given entries that were there, unchanged and in their order.
\<close>

theorem transfer_frame:
  assumes "loadCompletedEntries st = Inr completed"
    and "loadGivenEntries st = Inr given"
  shows "\<exists>st' completed' given'.
           handleTransfer e li now st = Returned st'
         \<and> loadCompletedEntries st' = Inr completed'
         \<and> loadGivenEntries st' = Inr given'
         \<and> filter (\<lambda>entry. id_entry entry \<noteq> id_entry e) completed'
             = filter (\<lambda>entry. id_entry entry \<noteq> id_entry e) completed
         \<and> (\<forall>entry \<in> set completed'. id_entry entry \<noteq> id_entry e)
         \<and> length given' = length given + 1
         \<and> drop 1 given' = given"
proof -
  from handleTransfer_loaded [OF assms, of e li now]
  obtain st' where r: "handleTransfer e li now st = Returned st'"
    and c: "loadCompletedEntries st' = Inr (filter (\<lambda>entry. id_entry entry \<noteq> id_entry e) completed)"
    and g: "loadGivenEntries st' =
              Inr (\<lparr>completedOn = content e, givenOn = ''Given on: '' @ toLocaleDateString now\<rparr> # given)"
    by blast
  show ?thesis using r c g by simp
qed

theorem transfer_frame_witness:
  "loadCompletedEntries
     (page (Some (Encoded [\<lparr>id_entry = 7, content = ''Completed on January 1, 1970''\<rparr>, entry_jan10]))
           (Some (Encoded [\<lparr>completedOn = ''a'', givenOn = ''b''\<rparr>])))
     = Inr [\<lparr>id_entry = 7, content = ''Completed on January 1, 1970''\<rparr>, entry_jan10]
   \<and> loadGivenEntries
     (page (Some (Encoded [\<lparr>id_entry = 7, content = ''Completed on January 1, 1970''\<rparr>, entry_jan10]))
           (Some (Encoded [\<lparr>completedOn = ''a'', givenOn = ''b''\<rparr>])))
     = Inr [\<lparr>completedOn = ''a'', givenOn = ''b''\<rparr>]
   \<and> (\<exists>st' completed' given'.
           handleTransfer entry_jan10 1 jan15
             (page (Some (Encoded [\<lparr>id_entry = 7, content = ''Completed on January 1, 1970''\<rparr>, entry_jan10]))
                   (Some (Encoded [\<lparr>completedOn = ''a'', givenOn = ''b''\<rparr>]))) = Returned st'
         \<and> loadCompletedEntries st' = Inr completed'
         \<and> loadGivenEntries st' = Inr given'
         \<and> filter (\<lambda>entry. id_entry entry \<noteq> id_entry entry_jan10) completed'
             = filter (\<lambda>entry. id_entry entry \<noteq> id_entry entry_jan10)
                 [\<lparr>id_entry = 7, content = ''Completed on January 1, 1970''\<rparr>, entry_jan10]
         \<and> (\<forall>entry \<in> set completed'. id_entry entry \<noteq> id_entry entry_jan10)
         \<and> length given' = length [\<lparr>completedOn = ''a'', givenOn = ''b''\<rparr>] + 1
         \<and> drop 1 given' = [\<lparr>completedOn = ''a'', givenOn = ''b''\<rparr>])"
proof -
  let ?st = "page (Some (Encoded [\<lparr>id_entry = 7, content = ''Completed on January 1, 1970''\<rparr>, entry_jan10]))
                  (Some (Encoded [\<lparr>completedOn = ''a'', givenOn = ''b''\<rparr>]))"
  have 1: "loadCompletedEntries ?st
             = Inr [\<lparr>id_entry = 7, content = ''Completed on January 1, 1970''\<rparr>, entry_jan10]"
    by (simp add: load_page)
  have 2: "loadGivenEntries ?st = Inr [\<lparr>completedOn = ''a'', givenOn = ''b''\<rparr>]"
    by (simp add: load_page)
  from transfer_frame [OF 1 2, of entry_jan10 1 jan15] 1 2 show ?thesis
    by blast
qed

section \<open>Add\<close>

text \<open>
  Claim C3. In every state whose two slots load, and for every current date \<open>t1\<close>,
  \<open>handleAddEntry\<close> returns and the persisted Completed sequence is then the old one with
  exactly one new entry at index 0, whose id is the timestamp of \<open>t1\<close> and whose content
  is \<open>''Completed on ''\<close> followed by the formatted date of \<open>t1\<close>; a second add at a
  later \<open>t2\<close> puts its entry before that one, so the order is entry of \<open>t2\<close>, entry of
  \<open>t1\<close>.
\<close>

theorem add_entry_newest_first:
  assumes "loadCompletedEntries st = Inr completed"
    and "loadGivenEntries st = Inr given"
  shows "\<exists>st1. handleAddEntry t1 st = Returned st1
           \<and> loadCompletedEntries st1 =
               Inr (\<lparr>id_entry = getTime t1, content = ''Completed on '' @ toLocaleDateString t1\<rparr>
                    # completed)
           \<and> loadGivenEntries st1 = Inr given
           \<and> (getTime t1 < getTime t2 \<longrightarrow>
               (\<exists>st2. handleAddEntry t2 st1 = Returned st2
                  \<and> loadCompletedEntries st2 =
                      Inr (\<lparr>id_entry = getTime t2, content = ''Completed on '' @ toLocaleDateString t2\<rparr>
                           # \<lparr>id_entry = getTime t1, content = ''Completed on '' @ toLocaleDateString t1\<rparr>
                           # completed)))"
proof -
  from handleAddEntry_loaded [OF assms, of t1]
  obtain st1 where 1: "handleAddEntry t1 st = Returned st1"
    and c1: "loadCompletedEntries st1 =
               Inr (\<lparr>id_entry = getTime t1, content = ''Completed on '' @ toLocaleDateString t1\<rparr>
                    # completed)"
    and g1: "loadGivenEntries st1 = Inr given"
    by blast
  from handleAddEntry_loaded [OF c1 g1, of t2] 1 c1 g1 show ?thesis
    by blast
qed

theorem add_entry_newest_first_witness:
  "loadCompletedEntries (page None None) = Inr []
   \<and> loadGivenEntries (page None None) = Inr []
   \<and> getTime jan10 < getTime jan15
   \<and> (\<exists>st1 st2. handleAddEntry jan10 (page None None) = Returned st1
         \<and> loadCompletedEntries st1 = Inr [entry_jan10]
         \<and> handleAddEntry jan15 st1 = Returned st2
         \<and> loadCompletedEntries st2 =
             Inr [\<lparr>id_entry = 1705276800000, content = ''Completed on January 15, 2024''\<rparr>,
                  entry_jan10])"
proof -
  have 1: "loadCompletedEntries (page None None) = Inr []" by (simp add: load_page)
  have 2: "loadGivenEntries (page None None) = Inr []" by (simp add: load_page)
  have 3: "getTime jan10 < getTime jan15" by (simp add: jan10_def jan15_def)
  have 4: "\<lparr>id_entry = getTime jan10, content = ''Completed on '' @ toLocaleDateString jan10\<rparr>
             = entry_jan10"
    by (simp add: jan10_def entry_jan10_def)
  have 5: "\<lparr>id_entry = getTime jan15, content = ''Completed on '' @ toLocaleDateString jan15\<rparr>
             = \<lparr>id_entry = 1705276800000, content = ''Completed on January 15, 2024''\<rparr>"
    by (simp add: jan15_def)
  from add_entry_newest_first [OF 1 2, of jan10 jan15] 3
  show ?thesis unfolding 4 5 using 1 2 by blast
qed

section \<open>Loading\<close>

text \<open>
  Claim C7. In every state in which a slot is absent (\<^verbatim>\<open>getItem\<close> gives
  \<^verbatim>\<open>null\<close>), the load of that slot returns the empty sequence, not an error.
\<close>

theorem load_absent_slot:
  "(completionEntries_slot st = None \<longrightarrow> loadCompletedEntries st = Inr [])
   \<and> (givenEntries_slot st = None \<longrightarrow> loadGivenEntries st = Inr [])"
  by (simp add: loadCompletedEntries_def loadGivenEntries_def)

theorem load_absent_slot_witness:
  "completionEntries_slot (page None None) = None
   \<and> givenEntries_slot (page None None) = None
   \<and> loadCompletedEntries (page None None) = Inr []
   \<and> loadGivenEntries (page None None) = Inr []"
proof -
  have 1: "completionEntries_slot (page None None) = None" by (simp add: page_def)
  have 2: "givenEntries_slot (page None None) = None" by (simp add: page_def)
  from load_absent_slot [of "page None None"] 1 2 show ?thesis by blast
qed

section \<open>Rendering\<close>

lemma appendCompleted_frame:
  "loadCompletedEntries (appendCompleted e st) = loadCompletedEntries st"
  "loadGivenEntries (appendCompleted e st) = loadGivenEntries st"
  "givenList (appendCompleted e st) = givenList st"
  "map (\<lambda>li. (textSpan li, removeBtn li)) (completionList (appendCompleted e st))
     = map (\<lambda>li. (textSpan li, removeBtn li)) (completionList st) @ [(content e, TRANSFER_ARROW)]"
  by (simp_all add: appendCompleted_def createCompletedListItem_def load_frame)

lemma appendGiven_frame:
  "loadCompletedEntries (appendGiven e st) = loadCompletedEntries st"
  "loadGivenEntries (appendGiven e st) = loadGivenEntries st"
  "completionList (appendGiven e st) = completionList st"
  "map (\<lambda>li. (completedText li, givenText li)) (givenList (appendGiven e st))
     = map (\<lambda>li. (completedText li, givenText li)) (givenList st) @ [(completedOn e, givenOn e)]"
  by (simp_all add: appendGiven_def createGivenListItem_def load_frame)

lemma fold_appendCompleted:
  "loadCompletedEntries (fold appendCompleted es st) = loadCompletedEntries st
   \<and> loadGivenEntries (fold appendCompleted es st) = loadGivenEntries st
   \<and> givenList (fold appendCompleted es st) = givenList st
   \<and> map (\<lambda>li. (textSpan li, removeBtn li)) (completionList (fold appendCompleted es st))
       = map (\<lambda>li. (textSpan li, removeBtn li)) (completionList st)
         @ map (\<lambda>e. (content e, TRANSFER_ARROW)) es"
  by (induction es arbitrary: st) (simp_all add: appendCompleted_frame)

lemma fold_appendGiven:
  "loadCompletedEntries (fold appendGiven es st) = loadCompletedEntries st
   \<and> loadGivenEntries (fold appendGiven es st) = loadGivenEntries st
   \<and> completionList (fold appendGiven es st) = completionList st
   \<and> map (\<lambda>li. (completedText li, givenText li)) (givenList (fold appendGiven es st))
       = map (\<lambda>li. (completedText li, givenText li)) (givenList st)
         @ map (\<lambda>e. (completedOn e, givenOn e)) es"
  by (induction es arbitrary: st) (simp_all add: appendGiven_frame)

lemma renderList_loaded:
  assumes "loadCompletedEntries st = Inr completed" and "loadGivenEntries st = Inr given"
  shows "\<exists>st'. renderList st = Returned st'
           \<and> loadCompletedEntries st' = Inr completed
           \<and> loadGivenEntries st' = Inr given
           \<and> visible_rows st' =
               (map (\<lambda>e. (content e, TRANSFER_ARROW)) completed,
                map (\<lambda>e. (completedOn e, givenOn e)) given)"
  using assms
  by (simp add: renderList_def Let_def load_frame fold_appendCompleted fold_appendGiven
      visible_rows_def)

text \<open>
  Claim C9. For every pair of persisted Completed and Given sequences, \<open>renderList\<close>
  run a second time shows exactly the rows it showed the first time: one row for each
  entry, in the order of the sequence, with the text of the entry.
\<close>

theorem renderList_idempotent:
  assumes "loadCompletedEntries st = Inr completed" and "loadGivenEntries st = Inr given"
  shows "\<exists>st1 st2. renderList st = Returned st1 \<and> renderList st1 = Returned st2
           \<and> visible_rows st2 = visible_rows st1
           \<and> visible_rows st1 =
               (map (\<lambda>e. (content e, TRANSFER_ARROW)) completed,
                map (\<lambda>e. (completedOn e, givenOn e)) given)"
proof -
  from renderList_loaded [OF assms]
  obtain st1 where 1: "renderList st = Returned st1"
    and c: "loadCompletedEntries st1 = Inr completed"
    and g: "loadGivenEntries st1 = Inr given"
    and v: "visible_rows st1 =
               (map (\<lambda>e. (content e, TRANSFER_ARROW)) completed,
                map (\<lambda>e. (completedOn e, givenOn e)) given)"
    by blast
  from renderList_loaded [OF c g] 1 v show ?thesis by auto
qed

theorem renderList_idempotent_witness:
  "loadCompletedEntries (page (Some (Encoded [entry_jan10]))
                              (Some (Encoded [\<lparr>completedOn = ''a'', givenOn = ''b''\<rparr>])))
     = Inr [entry_jan10]
   \<and> loadGivenEntries (page (Some (Encoded [entry_jan10]))
                            (Some (Encoded [\<lparr>completedOn = ''a'', givenOn = ''b''\<rparr>])))
     = Inr [\<lparr>completedOn = ''a'', givenOn = ''b''\<rparr>]
   \<and> (\<exists>st1 st2.
         renderList (page (Some (Encoded [entry_jan10]))
                          (Some (Encoded [\<lparr>completedOn = ''a'', givenOn = ''b''\<rparr>])))
           = Returned st1
       \<and> renderList st1 = Returned st2
       \<and> visible_rows st2 = visible_rows st1
       \<and> visible_rows st1 =
           ([(''Completed on January 10, 2024'', TRANSFER_ARROW)], [(''a'', ''b'')]))"
proof -
  let ?st = "page (Some (Encoded [entry_jan10]))
                  (Some (Encoded [\<lparr>completedOn = ''a'', givenOn = ''b''\<rparr>]))"
  have 1: "loadCompletedEntries ?st = Inr [entry_jan10]"
    by (simp add: load_page)
  have 2: "loadGivenEntries ?st = Inr [\<lparr>completedOn = ''a'', givenOn = ''b''\<rparr>]"
    by (simp add: load_page)
  have 3: "map (\<lambda>e. (content e, TRANSFER_ARROW)) [entry_jan10]
             = [(''Completed on January 10, 2024'', TRANSFER_ARROW)]"
    by (simp add: entry_jan10_def)
  have 4: "map (\<lambda>e. (completedOn e, givenOn e)) [\<lparr>completedOn = ''a'', givenOn = ''b''\<rparr>]
             = [(''a'', ''b'')]"
    by simp
  from renderList_idempotent [OF 1 2] show ?thesis unfolding 3 4 using 1 2 by blast
qed

section \<open>Reset\<close>

lemma exitResetMode_frame:
  "loadCompletedEntries (exitResetMode st) = loadCompletedEntries st"
  "loadGivenEntries (exitResetMode st) = loadGivenEntries st"
  "completionEntries_slot (exitResetMode st) = completionEntries_slot st"
  "givenEntries_slot (exitResetMode st) = givenEntries_slot st"
  "tabCompleted (exitResetMode st) = tabCompleted st"
  "tabGiven (exitResetMode st) = tabGiven st"
  "visible_rows (exitResetMode st) = visible_rows st"
  "isResetMode (exitResetMode st) = False"
  "completeButton (exitResetMode st) = ''+''"
  "completeButton_reset_mode (exitResetMode st) = False"
  by (simp_all add: exitResetMode_def loadCompletedEntries_def loadGivenEntries_def
      visible_rows_def)

lemma handleReset_confirmed:
  "\<exists>st'. handleReset True st = Returned st'
         \<and> loadCompletedEntries st' = Inr []
         \<and> loadGivenEntries st' = Inr []
         \<and> visible_rows st' = ([], [])
         \<and> \<not> isResetMode st'"
proof -
  let ?s = "saveGivenEntries [] (saveCompletedEntries [] st)"
  have c: "loadCompletedEntries ?s = Inr []" and g: "loadGivenEntries ?s = Inr []"
    by (simp_all add: load_after_saveCompleted load_after_saveGiven)
  from renderList_loaded [OF c g]
  obtain st1 where 1: "renderList ?s = Returned st1"
    and c1: "loadCompletedEntries st1 = Inr []"
    and g1: "loadGivenEntries st1 = Inr []"
    and v1: "visible_rows st1 = ([], [])"
    by auto
  let ?st2 = "st1\<lparr>tabCompleted := ''Completed ('' @ show_nat (length ([] :: completed_entry list)) @ '')'',
                    tabGiven := ''Given ('' @ show_nat (length ([] :: given_entry list)) @ '')''\<rparr>"
  have 2: "updateTabCounts st1 = Returned ?st2"
    by (rule updateTabCounts_loaded [OF c1 g1])
  have r: "handleReset True st = Returned (exitResetMode ?st2)"
    by (simp add: handleReset_def and_then_def 1 2)
  have "visible_rows ?st2 = visible_rows st1"
    by (simp add: visible_rows_def)
  with r c1 g1 v1 show ?thesis
    by (simp add: exitResetMode_frame load_frame)
qed

text \<open>
  Claim C5. A click on the button while \<open>isResetMode\<close> holds runs the reset: if the user
  confirms the prompt, the handler returns and both persisted sequences are empty,
  whatever they were; if the user declines, the handler returns and both slots, both
  persisted sequences, both tab labels (the counts) and the rows shown are unchanged; in
  either case \<open>isResetMode\<close> is false afterwards.
\<close>

theorem reset_confirmed_or_declined:
  assumes "isResetMode st"
  shows "(\<exists>st'. handleButtonClick now True st = Returned st'
            \<and> loadCompletedEntries st' = Inr []
            \<and> loadGivenEntries st' = Inr []
            \<and> \<not> isResetMode st')
       \<and> (\<exists>st'. handleButtonClick now False st = Returned st'
            \<and> completionEntries_slot st' = completionEntries_slot st
            \<and> givenEntries_slot st' = givenEntries_slot st
            \<and> loadCompletedEntries st' = loadCompletedEntries st
            \<and> loadGivenEntries st' = loadGivenEntries st
            \<and> tabCompleted st' = tabCompleted st
            \<and> tabGiven st' = tabGiven st
            \<and> visible_rows st' = visible_rows st
            \<and> \<not> isResetMode st')"
proof
  from handleReset_confirmed [of st] assms
  show "\<exists>st'. handleButtonClick now True st = Returned st'
            \<and> loadCompletedEntries st' = Inr []
            \<and> loadGivenEntries st' = Inr []
            \<and> \<not> isResetMode st'"
    by (auto simp: handleButtonClick_def)
next
  from assms have "handleButtonClick now False st = Returned (exitResetMode st)"
    by (simp add: handleButtonClick_def handleReset_def)
  then show "\<exists>st'. handleButtonClick now False st = Returned st'
            \<and> completionEntries_slot st' = completionEntries_slot st
            \<and> givenEntries_slot st' = givenEntries_slot st
            \<and> loadCompletedEntries st' = loadCompletedEntries st
            \<and> loadGivenEntries st' = loadGivenEntries st
            \<and> tabCompleted st' = tabCompleted st
            \<and> tabGiven st' = tabGiven st
            \<and> visible_rows st' = visible_rows st
            \<and> \<not> isResetMode st'"
    by (simp add: exitResetMode_frame)
qed

theorem reset_confirmed_or_declined_witness:
  "isResetMode (enterResetMode (page (Some (Encoded [entry_jan10])) None))
   \<and> (\<exists>st'. handleButtonClick jan15 True (enterResetMode (page (Some (Encoded [entry_jan10])) None))
              = Returned st'
            \<and> loadCompletedEntries st' = Inr []
            \<and> loadGivenEntries st' = Inr []
            \<and> \<not> isResetMode st')
   \<and> (\<exists>st'. handleButtonClick jan15 False (enterResetMode (page (Some (Encoded [entry_jan10])) None))
              = Returned st'
            \<and> loadCompletedEntries st' = Inr [entry_jan10]
            \<and> loadGivenEntries st' = Inr []
            \<and> tabCompleted st' = ''Completed''
            \<and> tabGiven st' = ''Given''
            \<and> \<not> isResetMode st')"
proof -
  let ?st = "enterResetMode (page (Some (Encoded [entry_jan10])) None)"
  have 1: "isResetMode ?st" by (simp add: enterResetMode_def)
  have 2: "loadCompletedEntries ?st = Inr [entry_jan10]" "loadGivenEntries ?st = Inr []"
    "tabCompleted ?st = ''Completed''" "tabGiven ?st = ''Given''"
    by (simp_all add: enterResetMode_def page_def loadCompletedEntries_def loadGivenEntries_def)
  from reset_confirmed_or_declined [OF 1, of jan15] 1 show ?thesis
    unfolding 2 by blast
qed

section \<open>Slots that do not parse\<close>

lemma aborted_simps:
  "aborted (Threw e st) = True" "aborted (Returned st) = False"
  by (simp_all add: aborted_def)

lemma load_malformed:
  "completionEntries_slot st = Some Malformed \<Longrightarrow> loadCompletedEntries st = Inl SyntaxError"
  "givenEntries_slot st = Some Malformed \<Longrightarrow> loadGivenEntries st = Inl SyntaxError"
  by (simp_all add: loadCompletedEntries_def loadGivenEntries_def)

lemma completed_malformed_aborts:
  assumes "completionEntries_slot st = Some Malformed"
  shows "aborted (renderList st)" "aborted (updateTabCounts st)"
    "aborted (handleAddEntry now st)" "aborted (handleTransfer e li now st)"
    "aborted (DOMContentLoaded st)"
proof -
  have l: "loadCompletedEntries st = Inl SyntaxError"
    using assms by (rule load_malformed)
  show r: "aborted (renderList st)"
    by (simp add: renderList_def Let_def load_frame l aborted_simps)
  show "aborted (updateTabCounts st)"
    by (simp add: updateTabCounts_def l aborted_simps)
  show "aborted (handleAddEntry now st)"
    by (simp add: handleAddEntry_def Let_def createCompletedListItem_def load_frame l
        aborted_simps)
  show "aborted (handleTransfer e li now st)"
    by (simp add: handleTransfer_def Let_def load_frame l aborted_simps)
  from r show "aborted (DOMContentLoaded st)"
    by (simp add: DOMContentLoaded_def and_then_def aborted_def split: outcome.splits)
qed

lemma given_malformed_aborts:
  assumes "givenEntries_slot st = Some Malformed"
  shows "aborted (renderList st)" "aborted (updateTabCounts st)"
    "aborted (handleAddEntry now st)" "aborted (handleTransfer e li now st)"
    "aborted (DOMContentLoaded st)"
proof -
  have l: "loadGivenEntries st = Inl SyntaxError"
    using assms by (rule load_malformed)
  show r: "aborted (renderList st)"
    by (simp add: renderList_def Let_def load_frame l fold_appendCompleted aborted_simps
        split: sum.splits)
  show "aborted (updateTabCounts st)"
    by (simp add: updateTabCounts_def l aborted_simps split: sum.splits)
  show "aborted (handleAddEntry now st)"
    by (simp add: handleAddEntry_def Let_def createCompletedListItem_def load_frame l
        updateTabCounts_def load_after_saveCompleted aborted_simps split: sum.splits)
  show "aborted (handleTransfer e li now st)"
    by (simp add: handleTransfer_def Let_def load_frame l load_after_saveCompleted
        aborted_simps split: sum.splits)
  from r show "aborted (DOMContentLoaded st)"
    by (simp add: DOMContentLoaded_def and_then_def aborted_def split: outcome.splits)
qed

text \<open>
  Claim C6, as the spec states it, says that a slot whose content is not valid serialized
  content is loaded as the empty sequence and that the gesture goes on. It fails on a
  page whose Completed slot holds a non-empty text that is not JSON: the load is not the
  empty sequence, the initial load stops with the exception of \<^verbatim>\<open>JSON.parse\<close> before
  anything is rendered, and so does an add.
\<close>

theorem load_malformed_counterexample:
  "loadCompletedEntries (page (Some Malformed) None) \<noteq> Inr []
   \<and> DOMContentLoaded (page (Some Malformed) None)
       = Threw SyntaxError (page (Some Malformed) None)
   \<and> aborted (handleAddEntry jan10 (page (Some Malformed) None))"
proof -
  have s: "completionEntries_slot (page (Some Malformed) None) = Some Malformed"
    by (simp add: page_def)
  have 1: "loadCompletedEntries (page (Some Malformed) None) \<noteq> Inr []"
    by (simp add: load_malformed(1) [OF s])
  have p: "(page (Some Malformed) None)\<lparr>completionList := [], givenList := []\<rparr>
             = page (Some Malformed) None"
    by (simp add: page_def)
  have 2: "DOMContentLoaded (page (Some Malformed) None)
             = Threw SyntaxError (page (Some Malformed) None)"
    by (simp add: DOMContentLoaded_def and_then_def renderList_def Let_def p
        load_malformed(1) [OF s])
  from 1 2 completed_malformed_aborts(3) [OF s] show ?thesis by simp
qed

text \<open>
  Claim C6, amended. When a slot holds a non-empty text that is not valid JSON, the load
  of that slot throws the \<open>SyntaxError\<close> of \<^verbatim>\<open>JSON.parse\<close>, and the initial load,
  \<open>renderList\<close>, \<open>updateTabCounts\<close>, \<open>handleAddEntry\<close> and \<open>handleTransfer\<close> all
  stop with an exception; nothing in the script catches it. Only the empty text (like an
  absent slot) is loaded as the empty sequence.
\<close>

theorem load_malformed_throws:
  "(completionEntries_slot st = Some Malformed \<longrightarrow>
      loadCompletedEntries st = Inl SyntaxError
      \<and> aborted (DOMContentLoaded st) \<and> aborted (renderList st) \<and> aborted (updateTabCounts st)
      \<and> aborted (handleAddEntry now st) \<and> aborted (handleTransfer e li now st))
   \<and> (givenEntries_slot st = Some Malformed \<longrightarrow>
      loadGivenEntries st = Inl SyntaxError
      \<and> aborted (DOMContentLoaded st) \<and> aborted (renderList st) \<and> aborted (updateTabCounts st)
      \<and> aborted (handleAddEntry now st) \<and> aborted (handleTransfer e li now st))
   \<and> (completionEntries_slot st = Some Blank \<longrightarrow> loadCompletedEntries st = Inr [])
   \<and> (givenEntries_slot st = Some Blank \<longrightarrow> loadGivenEntries st = Inr [])"
  by (simp add: load_malformed completed_malformed_aborts given_malformed_aborts
      loadCompletedEntries_def loadGivenEntries_def)

theorem load_malformed_throws_witness:
  "completionEntries_slot (page (Some Malformed) (Some Malformed)) = Some Malformed
   \<and> givenEntries_slot (page (Some Malformed) (Some Malformed)) = Some Malformed
   \<and> loadCompletedEntries (page (Some Malformed) (Some Malformed)) = Inl SyntaxError
   \<and> loadGivenEntries (page (Some Malformed) (Some Malformed)) = Inl SyntaxError
   \<and> aborted (handleAddEntry jan10 (page (Some Malformed) (Some Malformed)))
   \<and> aborted (handleTransfer entry_jan10 0 jan15 (page (Some Malformed) (Some Malformed)))
   \<and> completionEntries_slot (page (Some Blank) (Some Blank)) = Some Blank
   \<and> givenEntries_slot (page (Some Blank) (Some Blank)) = Some Blank
   \<and> loadCompletedEntries (page (Some Blank) (Some Blank)) = Inr []
   \<and> loadGivenEntries (page (Some Blank) (Some Blank)) = Inr []"
proof -
  have 1: "completionEntries_slot (page (Some Malformed) (Some Malformed)) = Some Malformed"
    "givenEntries_slot (page (Some Malformed) (Some Malformed)) = Some Malformed"
    "completionEntries_slot (page (Some Blank) (Some Blank)) = Some Blank"
    "givenEntries_slot (page (Some Blank) (Some Blank)) = Some Blank"
    by (simp_all add: page_def)
  from load_malformed_throws [of "page (Some Malformed) (Some Malformed)" jan10 entry_jan10 0]
    load_malformed_throws [of "page (Some Malformed) (Some Malformed)" jan15 entry_jan10 0]
    load_malformed_throws [of "page (Some Blank) (Some Blank)" jan10 entry_jan10 0] 1
  show ?thesis by simp
qed

section \<open>The long press\<close>

lemma controller_Normal:
  "controller_state st = Normal \<longleftrightarrow> \<not> isResetMode st \<and> timers st = []"
  by (simp add: controller_state_def)

lemma press_wait_release:
  assumes "timers st = []" and "t1 < t0 + 3000"
  shows "handleButtonRelease (elapse t1 (handleButtonPress t0 st))
           = st\<lparr>next_timer := Suc (next_timer st), pressTimer := Some (next_timer st)\<rparr>"
  using assms
  by (cases st) (simp add: handleButtonRelease_def elapse_def handleButtonPress_def clearTimeout_def)

lemma elapse_no_timers: "timers st = [] \<Longrightarrow> elapse t st = st"
  by (cases st) (simp add: elapse_def)

text \<open>
  Claim C8. From the Normal state (no timeout pending, \<open>isResetMode\<close> false), a press at
  \<open>t0\<close> puts the controller in ArmPending, and a release (or the pointer leaving the
  button) at a time \<open>t1\<close> strictly before \<open>t0 + 3000\<close> puts it back in Normal: the state
  is then the state before the press except for the timeout handle the script keeps, so
  the slots, the lists, the labels, the button and \<open>isResetMode\<close> are as they were, and
  no amount of waiting changes it again. (The click event a browser sends after a release
  on the button is the gesture \<open>Click\<close>, handled by \<open>handleButtonClick\<close>.)
\<close>

theorem early_release_never_arms:
  assumes "controller_state st = Normal" and "t0 \<le> t1" and "t1 < t0 + 3000"
  shows "controller_state (run [Press t0] st) = ArmPending
       \<and> controller_state (run [Press t0, Wait t1] st) = ArmPending
       \<and> run [Press t0, Wait t1, Release] st
           = st\<lparr>next_timer := Suc (next_timer st), pressTimer := Some (next_timer st)\<rparr>
       \<and> controller_state (run [Press t0, Wait t1, Release] st) = Normal
       \<and> run [Press t0, Wait t1, Release, Wait t] st = run [Press t0, Wait t1, Release] st"
proof -
  from assms(1) have n: "\<not> isResetMode st" and e: "timers st = []"
    by (simp_all add: controller_Normal)
  let ?st' = "st\<lparr>next_timer := Suc (next_timer st), pressTimer := Some (next_timer st)\<rparr>"
  have 1: "controller_state (run [Press t0] st) = ArmPending"
    using n by (simp add: state_of_def handleButtonPress_def controller_state_def)
  have 2: "controller_state (run [Press t0, Wait t1] st) = ArmPending"
    using n e assms(3)
    by (simp add: state_of_def handleButtonPress_def elapse_def controller_state_def)
  have 3: "run [Press t0, Wait t1, Release] st = ?st'"
    using press_wait_release [OF e assms(3)] by (simp add: state_of_def)
  have 4: "controller_state ?st' = Normal"
    using n e by (simp add: controller_state_def)
  have "run [Press t0, Wait t1, Release, Wait t] st = elapse t ?st'"
    using press_wait_release [OF e assms(3)] by (simp add: state_of_def)
  also have "\<dots> = ?st'"
    using e by (simp add: elapse_no_timers)
  finally have 5: "run [Press t0, Wait t1, Release, Wait t] st = ?st'" .
  from 1 2 3 4 5 show ?thesis by simp
qed

theorem early_release_never_arms_witness:
  "controller_state (page None None) = Normal \<and> (0::int) \<le> 2999 \<and> (2999::int) < 0 + 3000
   \<and> controller_state (run [Press 0] (page None None)) = ArmPending
   \<and> controller_state (run [Press 0, Wait 2999] (page None None)) = ArmPending
   \<and> run [Press 0, Wait 2999, Release] (page None None)
       = (page None None)\<lparr>next_timer := Suc 0, pressTimer := Some 0\<rparr>
   \<and> controller_state (run [Press 0, Wait 2999, Release] (page None None)) = Normal
   \<and> run [Press 0, Wait 2999, Release, Wait 10000] (page None None)
       = run [Press 0, Wait 2999, Release] (page None None)"
proof -
  have 1: "controller_state (page None None) = Normal"
    by (simp add: controller_state_def page_def)
  have 2: "(0::int) \<le> 2999" and 3: "(2999::int) < 0 + 3000" by simp_all
  have 4: "next_timer (page None None) = 0" by (simp add: page_def)
  from early_release_never_arms [OF 1 2 3, of 10000] 1 2 3 show ?thesis
    unfolding 4 by blast
qed

text \<open>For comparison, a press held for the full 3000 ms arms the button.\<close>

lemma held_long_enough_arms:
  "controller_state (run [Press 0, Wait 3000] (page None None)) = Armed"
  by (simp add: state_of_def handleButtonPress_def elapse_def enterResetMode_def
      controller_state_def page_def)

section \<open>Identity of entries\<close>

text \<open>
  An add whose timestamp is not yet an id of the persisted Completed sequence keeps the
  ids distinct, and so does every transfer.
\<close>

lemma handleAddEntry_ids:
  assumes "loadCompletedEntries st = Inr completed" and "loadGivenEntries st = Inr given"
    and "distinct (map id_entry completed)"
    and "getTime now \<notin> id_entry ` set completed"
  shows "\<exists>st' completed'. handleAddEntry now st = Returned st'
           \<and> loadCompletedEntries st' = Inr completed'
           \<and> distinct (map id_entry completed')"
  using handleAddEntry_loaded [OF assms(1) assms(2), of now] assms(3) assms(4)
  by auto

lemma handleTransfer_ids:
  assumes "loadCompletedEntries st = Inr completed" and "loadGivenEntries st = Inr given"
    and "distinct (map id_entry completed)"
  shows "\<exists>st' completed'. handleTransfer e li now st = Returned st'
           \<and> loadCompletedEntries st' = Inr completed'
           \<and> distinct (map id_entry completed')"
  using handleTransfer_loaded [OF assms(1) assms(2), of e li now] assms(3)
  by (auto simp: distinct_map_filter)

text \<open>
  Claim C4 says that the ids of the persisted Completed sequence are distinct in every
  state reachable from the empty store. The script takes \<^verbatim>\<open>now.getTime()\<close> as the id
  (``Use timestamp as a unique ID'') and checks nothing: two clicks that read the same
  millisecond leave two entries with the same id, and the transfer of one of the two rows
  then removes both entries and records one.
\<close>

theorem same_timestamp_duplicate_id:
  "loadCompletedEntries (run [Click jan10 False, Click jan10 False] (page None None))
     = Inr [entry_jan10, entry_jan10]
   \<and> \<not> distinct (map id_entry [entry_jan10, entry_jan10])
   \<and> loadCompletedEntries
        (run [Click jan10 False, Click jan10 False, Transfer 0 jan15] (page None None))
     = Inr []
   \<and> loadGivenEntries
        (run [Click jan10 False, Click jan10 False, Transfer 0 jan15] (page None None))
     = Inr [\<lparr>completedOn = ''Completed on January 10, 2024'',
             givenOn = ''Given on: January 15, 2024''\<rparr>]"
  by (simp add: state_of_def handleButtonClick_def handleAddEntry_def handleTransfer_def
      createCompletedListItem_def createGivenListItem_def updateTabCounts_def
      loadCompletedEntries_def loadGivenEntries_def saveCompletedEntries_def
      saveGivenEntries_def JSON_stringify_def page_def jan10_def jan15_def entry_jan10_def
      Let_def)

end
